theory Spec2Isabelle
  imports Complex_Main "HOL-Library.Sublist"
begin

section \<open>plot.py: load a loss table, draw one line chart, save it\<close>

text \<open>
  The program is a straight-line script: two imports and nine library calls.
  \<^verbatim>\<open>
  import pandas as pd
  import matplotlib.pyplot as plt
  df = pd.read_csv("loss.csv", header=None, names=["Epoch", "Loss"])
  plt.figure(figsize=(8, 5))
  plt.plot(df["Epoch"], df["Loss"], label="Training Loss")
  plt.xlabel("Epoche")
  plt.ylabel("Loss (Cross-Entropy)")
  plt.title("Loss-Verlauf des Trainings")
  plt.legend()
  plt.grid(True)
  # plt.show()
  plt.savefig('my_plot.png')
  \<close>
  It has no \<^verbatim>\<open>try\<close>, so an exception raised by any statement ends the run.
  The script is embedded as a computation over an explicit world (the files of the
  working directory, pyplot's current figure, and a log of the effects performed)
  that returns either the exception or a value, together with the world it leaves
  behind.

  pandas and matplotlib are not part of the repository. What the script relies on
  from them is written out below, each definition marked as modelled; what neither
  the script nor the specification fixes (how the text of the file is tokenised and
  typed, which data the plotting call accepts, how a figure is rasterised, what a
  configuration file does to the library) stays a parameter, collected in the record
  \<open>lib\<close>, and every theorem holds for every choice of it. Both libraries are taken
  to be installed.
\<close>

subsection \<open>Exceptions\<close>

datatype error =
    FileNotFoundError string
  | PermissionError string
  | KeyError string
  | LibraryError string

subsection \<open>The table and the figure\<close>

text \<open>
  A data frame is an ordered list of named columns; the cells are of an arbitrary
  type \<open>'v\<close> (numbers, missing values, text: the script never inspects a cell).
\<close>

type_synonym 'v dataframe = "(string \<times> 'v list) list"

record 'v line =
  xdata :: "'v list"
  ydata :: "'v list"
  label :: "string option"

record 'v figure =
  figsize :: "(nat \<times> nat) option"
  lines :: "'v line list"
  xlabel :: string
  ylabel :: string
  title :: string
  legend :: "string list option"
  grid :: bool

subsection \<open>The world and the library parameters\<close>

text \<open>
  The world is what the script can touch: the files of the working directory by name
  (with the operating system's verdict on whether each may be read or written),
  pyplot's current figure, and the log of effects visible from outside, oldest
  first.
\<close>

datatype effect = FileRead string | FileWrite string | WindowShown

record 'v world =
  files :: "string \<rightharpoonup> string"
  readable :: "string \<Rightarrow> bool"
  writable :: "string \<Rightarrow> bool"
  fig :: "'v figure option"
  effects :: "effect list"

text \<open>
  The name \<^verbatim>\<open>plt\<close> of the script stands for the pyplot module as the import
  left it: configured by the text of the \<^verbatim>\<open>matplotlibrc\<close> of the working
  directory, or by the defaults (\<open>None\<close>) when there is no such file.
\<close>

type_synonym pyplot = "string option"

text \<open>
  What the repository does not determine: \<open>parse_csv header names text\<close> is the
  table pandas makes of a file's text, or the exception it raises; \<open>accepts x y\<close>
  is the exception \<^verbatim>\<open>plt.plot\<close> raises on these series, if any;
  \<open>encode plt f\<close> is the image data matplotlib makes of a figure under a
  configuration, or the exception; \<open>interactive plt\<close> says whether, under that
  configuration, pyplot opens a window for every figure it creates.
\<close>

record 'v lib =
  parse_csv :: "nat option \<Rightarrow> string list \<Rightarrow> string \<Rightarrow> error + 'v dataframe"
  accepts :: "'v list \<Rightarrow> 'v list \<Rightarrow> error option"
  encode :: "pyplot \<Rightarrow> 'v figure \<Rightarrow> error + string"
  interactive :: "pyplot \<Rightarrow> bool"

subsection \<open>Statements in sequence\<close>

type_synonym ('v, 'a) py = "'v world \<Rightarrow> (error + 'a) \<times> 'v world"

text \<open>
  \<open>then_py m f\<close> is \<^verbatim>\<open>a = m; f(a)\<close>: when \<open>m\<close> raises, \<open>f\<close> is not run and
  the exception is the result.
\<close>

definition then_py :: "('v, 'a) py \<Rightarrow> ('a \<Rightarrow> ('v, 'b) py) \<Rightarrow> ('v, 'b) py" where
  "then_py m f = (\<lambda>w. case m w of
       (Inl e, w') \<Rightarrow> (Inl e, w')
     | (Inr a, w') \<Rightarrow> f a w')"

definition raise :: "error \<Rightarrow> ('v, 'a) py" where
  "raise e = (\<lambda>w. (Inl e, w))"

definition return :: "'a \<Rightarrow> ('v, 'a) py" where
  "return a = (\<lambda>w. (Inr a, w))"

subsection \<open>The imports\<close>

text \<open>
  Modelled from the spec: \<^verbatim>\<open>import pandas as pd\<close>. pandas is not in the
  repository; the specification gives the import no effect (section 6: no
  environment variables, no persisted state), and neither does the model.
\<close>

definition import_pandas :: "('v, unit) py" where
  "import_pandas = return ()"

text \<open>
  Modelled from the spec: \<^verbatim>\<open>import matplotlib.pyplot as plt\<close>. matplotlib is
  not in the repository. Section 6 speaks of the defaults of the plotting backend;
  matplotlib takes them, when it is imported, from the file \<^verbatim>\<open>matplotlibrc\<close>
  of the working directory if there is one (the first place of its documented
  search), and the import fails when that file cannot be read. The result is the
  module as configured.
\<close>

definition import_pyplot :: "('v, pyplot) py" where
  "import_pyplot = (\<lambda>w.
     case files w ''matplotlibrc'' of
       None \<Rightarrow> (Inr None, w)
     | Some rc \<Rightarrow>
         if \<not> readable w ''matplotlibrc'' then (Inl (PermissionError ''matplotlibrc''), w)
         else (Inr (Some rc), w\<lparr>effects := effects w @ [FileRead ''matplotlibrc'']\<rparr>))"

subsection \<open>The library calls the script makes\<close>

text \<open>
  Modelled from the spec: \<^verbatim>\<open>pandas.read_csv\<close> is not in the repository. Section 4.1:
  the Loader reads the file at the given path, fails if the file is absent or
  unreadable or a row cannot be parsed, and has no side effect beyond the file read.
  Which texts parse, and to which table, is the parameter \<open>parse_csv\<close>, which gets
  the \<^verbatim>\<open>header\<close> and \<^verbatim>\<open>names\<close> arguments of the call.
\<close>

definition read_csv ::
    "'v lib \<Rightarrow> string \<Rightarrow> nat option \<Rightarrow> string list \<Rightarrow> ('v, 'v dataframe) py" where
  "read_csv L path header names = (\<lambda>w.
     case files w path of
       None \<Rightarrow> (Inl (FileNotFoundError path), w)
     | Some txt \<Rightarrow>
         if \<not> readable w path then (Inl (PermissionError path), w)
         else (parse_csv L header names txt,
               w\<lparr>effects := effects w @ [FileRead path]\<rparr>))"

text \<open>
  Modelled from the spec: \<^verbatim>\<open>df[key]\<close> selects the column of that name (section 4.1:
  a table with columns named "Epoch" and "Loss"); a missing key raises.
\<close>

definition getitem :: "'v dataframe \<Rightarrow> string \<Rightarrow> ('v, 'v list) py" where
  "getitem df key = (case map_of df key of
       None \<Rightarrow> raise (KeyError key)
     | Some col \<Rightarrow> return col)"

text \<open>
  \<^verbatim>\<open>matplotlib.pyplot\<close> is not in the repository either. Section 4.2 of the
  specification describes what the script uses of it: the Renderer builds one
  in-memory figure with a line, axis labels, a title, a legend and grid lines.
  pyplot keeps a current figure; each call below is one update of it.
\<close>

text \<open>
  Modelled from the spec: the empty figure \<^verbatim>\<open>plt.figure\<close> starts with; its size
  is the \<^verbatim>\<open>figsize\<close> given, or the configured default (\<open>None\<close>).
\<close>

definition new_figure :: "(nat \<times> nat) option \<Rightarrow> 'v figure" where
  "new_figure sz = \<lparr>figsize = sz, lines = [], xlabel = [], ylabel = [],
     title = [], legend = None, grid = False\<rparr>"

text \<open>
  Modelled from the spec: pyplot creates a figure and makes it the current one.
  Section 4.2 lists no side effect for the script as configured by default; under
  an interactive configuration pyplot opens the figure's window at once.
\<close>

definition open_figure :: "'v lib \<Rightarrow> pyplot \<Rightarrow> (nat \<times> nat) option \<Rightarrow> ('v, 'v figure) py" where
  "open_figure L plt sz = (\<lambda>w. (Inr (new_figure sz),
     w\<lparr>fig := Some (new_figure sz),
       effects := effects w @ (if interactive L plt then [WindowShown] else [])\<rparr>))"

text \<open>
  Modelled from the spec: pyplot's current figure; one of default size is created
  when none was started.
\<close>

definition gcf :: "'v lib \<Rightarrow> pyplot \<Rightarrow> ('v, 'v figure) py" where
  "gcf L plt = (\<lambda>w. case fig w of
       None \<Rightarrow> open_figure L plt None w
     | Some f \<Rightarrow> (Inr f, w))"

text \<open>
  Modelled from the spec: a pyplot call that changes the current figure and does
  nothing else (section 4.2).
\<close>

definition on_gcf :: "'v lib \<Rightarrow> pyplot \<Rightarrow> ('v figure \<Rightarrow> 'v figure) \<Rightarrow> ('v, unit) py" where
  "on_gcf L plt g = then_py (gcf L plt) (\<lambda>f w. (Inr (), w\<lparr>fig := Some (g f)\<rparr>))"

text \<open>
  Modelled from the spec: \<^verbatim>\<open>plt.figure(figsize=...)\<close> starts a new figure of
  that size and makes it the current one.
\<close>

definition plt_figure :: "'v lib \<Rightarrow> pyplot \<Rightarrow> nat \<times> nat \<Rightarrow> ('v, unit) py" where
  "plt_figure L plt sz = then_py (open_figure L plt (Some sz)) (\<lambda>_. return ())"

text \<open>
  Modelled from the spec: \<^verbatim>\<open>plt.plot(x, y, label=...)\<close> adds one line with
  these series, as given, to the current figure. Which data it refuses
  (section 4.2: an empty table, non-numeric columns) is the parameter \<open>accepts\<close>.
\<close>

definition plt_plot ::
    "'v lib \<Rightarrow> pyplot \<Rightarrow> 'v list \<Rightarrow> 'v list \<Rightarrow> string option \<Rightarrow> ('v, unit) py" where
  "plt_plot L plt x y lbl = (case accepts L x y of
       Some e \<Rightarrow> raise e
     | None \<Rightarrow> on_gcf L plt
         (\<lambda>f. f\<lparr>lines := lines f @ [\<lparr>xdata = x, ydata = y, label = lbl\<rparr>]\<rparr>))"

text \<open>Modelled from the spec: \<^verbatim>\<open>plt.xlabel\<close> sets the x-axis label.\<close>

definition plt_xlabel :: "'v lib \<Rightarrow> pyplot \<Rightarrow> string \<Rightarrow> ('v, unit) py" where
  "plt_xlabel L plt s = on_gcf L plt (\<lambda>f. f\<lparr>xlabel := s\<rparr>)"

text \<open>Modelled from the spec: \<^verbatim>\<open>plt.ylabel\<close> sets the y-axis label.\<close>

definition plt_ylabel :: "'v lib \<Rightarrow> pyplot \<Rightarrow> string \<Rightarrow> ('v, unit) py" where
  "plt_ylabel L plt s = on_gcf L plt (\<lambda>f. f\<lparr>ylabel := s\<rparr>)"

text \<open>Modelled from the spec: \<^verbatim>\<open>plt.title\<close> sets the title.\<close>

definition plt_title :: "'v lib \<Rightarrow> pyplot \<Rightarrow> string \<Rightarrow> ('v, unit) py" where
  "plt_title L plt s = on_gcf L plt (\<lambda>f. f\<lparr>title := s\<rparr>)"

text \<open>
  Modelled from the spec: \<^verbatim>\<open>plt.legend()\<close>, without arguments, makes a legend
  of the labels of the lines drawn so far (section 4.2: a legend entry
  "Training Loss", the label given to \<^verbatim>\<open>plt.plot\<close>).
\<close>

definition plt_legend :: "'v lib \<Rightarrow> pyplot \<Rightarrow> ('v, unit) py" where
  "plt_legend L plt =
     on_gcf L plt (\<lambda>f. f\<lparr>legend := Some (List.map_filter label (lines f))\<rparr>)"

text \<open>Modelled from the spec: \<^verbatim>\<open>plt.grid(b)\<close> switches the grid lines.\<close>

definition plt_grid :: "'v lib \<Rightarrow> pyplot \<Rightarrow> bool \<Rightarrow> ('v, unit) py" where
  "plt_grid L plt b = on_gcf L plt (\<lambda>f. f\<lparr>grid := b\<rparr>)"

text \<open>
  Modelled from the spec: the first eight bytes of every file in the PNG format
  (137, "PNG", 13, 10, 26, 10). Section 6: the output file is a raster image; the
  name the script gives it ends in \<^verbatim>\<open>.png\<close>, from which matplotlib takes the
  format.
\<close>

definition png_signature :: string where
  "png_signature = [CHR 0x89, CHR ''P'', CHR ''N'', CHR ''G'',
     CHR 0x0D, CHR 0x0A, CHR 0x1A, CHR 0x0A]"

text \<open>
  Modelled from the spec: \<^verbatim>\<open>plt.savefig\<close> (section 4.3) serialises the
  current figure to the given file name, overwriting any existing file of that name,
  and fails if the destination is not writable. The file is the PNG signature
  followed by the image data of the parameter \<open>encode\<close>, which may fail too.
\<close>

definition plt_savefig :: "'v lib \<Rightarrow> pyplot \<Rightarrow> string \<Rightarrow> ('v, unit) py" where
  "plt_savefig L plt fname = then_py (gcf L plt) (\<lambda>f w.
     case encode L plt f of
       Inl e \<Rightarrow> (Inl e, w)
     | Inr data \<Rightarrow>
         if \<not> writable w fname then (Inl (PermissionError fname), w)
         else (Inr (), w\<lparr>files := (files w)(fname \<mapsto> png_signature @ data),
                          effects := effects w @ [FileWrite fname]\<rparr>))"

text \<open>
  Modelled from the spec: \<^verbatim>\<open>plt.show()\<close> is the interactive display
  (sections 1 and 4.2): it opens the window of the current figure.
\<close>

definition plt_show :: "'v lib \<Rightarrow> pyplot \<Rightarrow> ('v, unit) py" where
  "plt_show L plt = (\<lambda>w. (Inr (), w\<lparr>effects := effects w @ [WindowShown]\<rparr>))"

subsection \<open>The script\<close>

text \<open>Line 5, under the comment \<^verbatim>\<open># CSV laden\<close>.\<close>

definition loader :: "'v lib \<Rightarrow> ('v, 'v dataframe) py" where
  "loader L = read_csv L ''loss.csv'' None [''Epoch'', ''Loss'']"

text \<open>
  Lines 8 to 14, under the comment \<^verbatim>\<open># Plot\<close>. The arguments of
  \<^verbatim>\<open>plt.plot\<close> are evaluated left to right before the call. Line 15,
  \<^verbatim>\<open># plt.show()\<close>, is a comment: no statement, so \<open>plt_show\<close> above
  is not part of the script.
\<close>

definition renderer :: "'v lib \<Rightarrow> pyplot \<Rightarrow> 'v dataframe \<Rightarrow> ('v, unit) py" where
  "renderer L plt df =
     then_py (plt_figure L plt (8, 5)) (\<lambda>_.
     then_py (getitem df ''Epoch'') (\<lambda>x.
     then_py (getitem df ''Loss'') (\<lambda>y.
     then_py (plt_plot L plt x y (Some ''Training Loss'')) (\<lambda>_.
     then_py (plt_xlabel L plt ''Epoche'') (\<lambda>_.
     then_py (plt_ylabel L plt ''Loss (Cross-Entropy)'') (\<lambda>_.
     then_py (plt_title L plt ''Loss-Verlauf des Trainings'') (\<lambda>_.
     then_py (plt_legend L plt) (\<lambda>_.
     plt_grid L plt True))))))))"

text \<open>Line 16.\<close>

definition writer :: "'v lib \<Rightarrow> pyplot \<Rightarrow> ('v, unit) py" where
  "writer L plt = plt_savefig L plt ''my_plot.png''"

text \<open>The whole file: lines 1 and 2, then the three parts.\<close>

definition plot_py :: "'v lib \<Rightarrow> ('v, unit) py" where
  "plot_py L =
     then_py import_pandas (\<lambda>_.
     then_py import_pyplot (\<lambda>plt.
     then_py (loader L) (\<lambda>df.
     then_py (renderer L plt df) (\<lambda>_.
     writer L plt))))"

subsection \<open>A library and a world to run the script on\<close>

text \<open>
  The theorems below hold for every library and every world. To run the script on
  one concrete input, \<open>sample_lib\<close> stands in for the libraries: it parses the one
  three-row text of \<open>sample_world\<close> and nothing else, its image data spell out the
  figure, and it is interactive under the one configuration text
  \<^verbatim>\<open>interactive: True\<close>. \<open>sample_world\<close> is a working directory that holds the
  three-row text as \<^verbatim>\<open>loss.csv\<close> and nothing else.
\<close>

definition sample_lib :: "rat lib" where
  "sample_lib = \<lparr>
     parse_csv = (\<lambda>header names txt.
       if txt = ''1,2.5\<newline>2,2.1\<newline>3,1.9\<newline>''
       then Inr (zip names [[1, 2, 3], [5 / 2, 21 / 10, 19 / 10]])
       else Inl (LibraryError ''ParserError'')),
     accepts = (\<lambda>x y. if length x = length y then None
       else Some (LibraryError ''ValueError'')),
     encode = (\<lambda>plt f. Inr (concat
       [title f, ''|'', xlabel f, ''|'', ylabel f, ''|'',
        concat (case legend f of None \<Rightarrow> [] | Some ls \<Rightarrow> ls), ''|'',
        (if grid f then ''grid'' else ''plain''), ''|'',
        concat (map (\<lambda>l. replicate (length (xdata l)) (CHR ''x'') @
                         replicate (length (ydata l)) (CHR ''y'')) (lines f))])),
     interactive = (\<lambda>plt. plt = Some ''interactive: True'')\<rparr>"

definition sample_world :: "rat world" where
  "sample_world = \<lparr>
     files = [''loss.csv'' \<mapsto> ''1,2.5\<newline>2,2.1\<newline>3,1.9\<newline>''],
     readable = (\<lambda>_. True), writable = (\<lambda>_. True), fig = None, effects = []\<rparr>"

section \<open>What each part of the script computes\<close>

lemma loader_eval:
  "loader L w =
     (case files w ''loss.csv'' of
        None \<Rightarrow> (Inl (FileNotFoundError ''loss.csv''), w)
      | Some txt \<Rightarrow>
          if \<not> readable w ''loss.csv'' then (Inl (PermissionError ''loss.csv''), w)
          else (parse_csv L None [''Epoch'', ''Loss''] txt,
                w\<lparr>effects := effects w @ [FileRead ''loss.csv'']\<rparr>))"
  by (simp add: loader_def read_csv_def)

text \<open>
  The calls of the renderer collapse to one of four outcomes: a missing column
  (twice), data the plotting call refuses, or the finished figure. In each the figure
  was started, with its window when the configuration is interactive.
\<close>

lemma renderer_eval:
  "renderer L plt df w =
     (case map_of df ''Epoch'' of
        None \<Rightarrow> (Inl (KeyError ''Epoch''),
          w\<lparr>fig := Some (new_figure (Some (8, 5))),
            effects := effects w @ (if interactive L plt then [WindowShown] else [])\<rparr>)
      | Some x \<Rightarrow>
     (case map_of df ''Loss'' of
        None \<Rightarrow> (Inl (KeyError ''Loss''),
          w\<lparr>fig := Some (new_figure (Some (8, 5))),
            effects := effects w @ (if interactive L plt then [WindowShown] else [])\<rparr>)
      | Some y \<Rightarrow>
     (case accepts L x y of
        Some e \<Rightarrow> (Inl e,
          w\<lparr>fig := Some (new_figure (Some (8, 5))),
            effects := effects w @ (if interactive L plt then [WindowShown] else [])\<rparr>)
      | None \<Rightarrow> (Inr (),
          w\<lparr>fig := Some
              \<lparr>figsize = Some (8, 5),
               lines = [\<lparr>xdata = x, ydata = y, label = Some ''Training Loss''\<rparr>],
               xlabel = ''Epoche'', ylabel = ''Loss (Cross-Entropy)'',
               title = ''Loss-Verlauf des Trainings'',
               legend = Some [''Training Loss''], grid = True\<rparr>,
            effects := effects w @ (if interactive L plt then [WindowShown] else [])\<rparr>))))"
  by (simp add: renderer_def then_py_def plt_figure_def open_figure_def getitem_def
      raise_def return_def plt_plot_def on_gcf_def gcf_def plt_xlabel_def plt_ylabel_def
      plt_title_def plt_legend_def plt_grid_def new_figure_def List.map_filter_simps
      split: option.splits)

lemma writer_eval:
  "fig w = Some f \<Longrightarrow> writer L plt w =
     (case encode L plt f of
        Inl e \<Rightarrow> (Inl e, w)
      | Inr data \<Rightarrow>
          if \<not> writable w ''my_plot.png'' then (Inl (PermissionError ''my_plot.png''), w)
          else (Inr (), w\<lparr>files := (files w)(''my_plot.png'' \<mapsto> png_signature @ data),
                           effects := effects w @ [FileWrite ''my_plot.png'']\<rparr>))"
  by (simp add: writer_def plt_savefig_def then_py_def gcf_def)


text \<open>The two imports: nothing, or the read of the configuration file.\<close>

lemma import_eval:
  "then_py import_pandas (\<lambda>_. then_py import_pyplot k) w =
     (case files w ''matplotlibrc'' of
        None \<Rightarrow> k None w
      | Some rc \<Rightarrow>
          if \<not> readable w ''matplotlibrc'' then (Inl (PermissionError ''matplotlibrc''), w)
          else k (Some rc) (w\<lparr>effects := effects w @ [FileRead ''matplotlibrc'']\<rparr>))"
  by (simp add: then_py_def import_pandas_def import_pyplot_def return_def
      split: option.splits)

text \<open>
  The script checks nothing itself: a run succeeds only when every library call
  did, and then the final world is determined by what the calls returned.
\<close>

lemma body_success:
  assumes "then_py (loader L) (\<lambda>df. then_py (renderer L plt df) (\<lambda>_. writer L plt)) w
           = (Inr (), w')"
  shows "\<exists>t df x y data.
     files w ''loss.csv'' = Some t \<and> readable w ''loss.csv'' \<and>
     parse_csv L None [''Epoch'', ''Loss''] t = Inr df \<and>
     map_of df ''Epoch'' = Some x \<and> map_of df ''Loss'' = Some y \<and>
     accepts L x y = None \<and>
     fig w' = Some
          \<lparr>figsize = Some (8, 5),
           lines = [\<lparr>xdata = x, ydata = y, label = Some ''Training Loss''\<rparr>],
           xlabel = ''Epoche'', ylabel = ''Loss (Cross-Entropy)'',
           title = ''Loss-Verlauf des Trainings'',
           legend = Some [''Training Loss''], grid = True\<rparr> \<and>
     encode L plt
          \<lparr>figsize = Some (8, 5),
           lines = [\<lparr>xdata = x, ydata = y, label = Some ''Training Loss''\<rparr>],
           xlabel = ''Epoche'', ylabel = ''Loss (Cross-Entropy)'',
           title = ''Loss-Verlauf des Trainings'',
           legend = Some [''Training Loss''], grid = True\<rparr> = Inr data \<and>
     writable w ''my_plot.png'' \<and>
     files w' = (files w)(''my_plot.png'' \<mapsto> png_signature @ data) \<and>
     effects w' = effects w @ [FileRead ''loss.csv''] @
       (if interactive L plt then [WindowShown] else []) @ [FileWrite ''my_plot.png'']"
  using assms
  by (auto simp: then_py_def loader_eval renderer_eval writer_eval
      split: option.splits sum.splits if_splits prod.splits)

text \<open>The whole script is its body, run under the configuration the import found.\<close>

lemma plot_py_eval:
  "plot_py L w =
     (case files w ''matplotlibrc'' of
        None \<Rightarrow>
          then_py (loader L) (\<lambda>df. then_py (renderer L None df) (\<lambda>_. writer L None)) w
      | Some rc \<Rightarrow>
          if \<not> readable w ''matplotlibrc'' then (Inl (PermissionError ''matplotlibrc''), w)
          else then_py (loader L)
                 (\<lambda>df. then_py (renderer L (Some rc) df) (\<lambda>_. writer L (Some rc)))
                 (w\<lparr>effects := effects w @ [FileRead ''matplotlibrc'']\<rparr>))"
  unfolding plot_py_def by (rule import_eval)

lemma plot_py_success:
  assumes "plot_py L w = (Inr (), w')"
  shows "\<exists>t df x y data.
     files w ''loss.csv'' = Some t \<and> readable w ''loss.csv'' \<and>
     parse_csv L None [''Epoch'', ''Loss''] t = Inr df \<and>
     map_of df ''Epoch'' = Some x \<and> map_of df ''Loss'' = Some y \<and>
     accepts L x y = None \<and>
     fig w' = Some
          \<lparr>figsize = Some (8, 5),
           lines = [\<lparr>xdata = x, ydata = y, label = Some ''Training Loss''\<rparr>],
           xlabel = ''Epoche'', ylabel = ''Loss (Cross-Entropy)'',
           title = ''Loss-Verlauf des Trainings'',
           legend = Some [''Training Loss''], grid = True\<rparr> \<and>
     encode L (files w ''matplotlibrc'')
          \<lparr>figsize = Some (8, 5),
           lines = [\<lparr>xdata = x, ydata = y, label = Some ''Training Loss''\<rparr>],
           xlabel = ''Epoche'', ylabel = ''Loss (Cross-Entropy)'',
           title = ''Loss-Verlauf des Trainings'',
           legend = Some [''Training Loss''], grid = True\<rparr> = Inr data \<and>
     writable w ''my_plot.png'' \<and>
     files w' = (files w)(''my_plot.png'' \<mapsto> png_signature @ data) \<and>
     effects w' = effects w @
       (if files w ''matplotlibrc'' = None then [] else [FileRead ''matplotlibrc'']) @
       [FileRead ''loss.csv''] @
       (if interactive L (files w ''matplotlibrc'') then [WindowShown] else []) @
       [FileWrite ''my_plot.png'']"
proof (cases "files w ''matplotlibrc''")
  case None
  with assms have
    "then_py (loader L) (\<lambda>df. then_py (renderer L None df) (\<lambda>_. writer L None)) w
       = (Inr (), w')"
    by (simp add: plot_py_eval)
  from body_success [OF this] None show ?thesis
    by simp
next
  case (Some rc)
  let ?w = "w\<lparr>effects := effects w @ [FileRead ''matplotlibrc'']\<rparr>"
  from assms Some have r: "readable w ''matplotlibrc''"
    by (auto simp: plot_py_eval split: if_splits)
  with assms Some have
    "then_py (loader L) (\<lambda>df. then_py (renderer L (Some rc) df) (\<lambda>_. writer L (Some rc))) ?w
       = (Inr (), w')"
    by (simp add: plot_py_eval)
  from body_success [OF this] Some show ?thesis
    by simp
qed





lemma sample_run_succeeds: "\<exists>w'. plot_py sample_lib sample_world = (Inr (), w')"
proof -
  have "fst (plot_py sample_lib sample_world) = Inr ()"
    by (simp add: plot_py_eval then_py_def loader_eval renderer_eval writer_eval
        sample_lib_def sample_world_def)
  then show ?thesis
    by (metis prod.collapse)
qed

section \<open>The claims\<close>

text \<open>
  Claim C2. On a run that completes, the figure holds exactly one line; its x-series
  is the list the loaded table has as its column "Epoch" and its y-series is the list
  it has as its column "Loss". The lists are equal as lists, so element by element and
  in the same order: between \<^verbatim>\<open>read_csv\<close> and \<^verbatim>\<open>plt.plot\<close> the script
  sorts, reorders and drops nothing.
\<close>

theorem chart_series_are_table_columns:
  assumes "plot_py L w = (Inr (), w')"
  shows "\<exists>df w1 x y f.
     loader L w = (Inr df, w1) \<and>
     map_of df ''Epoch'' = Some x \<and> map_of df ''Loss'' = Some y \<and>
     fig w' = Some f \<and> map (\<lambda>l. (xdata l, ydata l)) (lines f) = [(x, y)]"
proof -
  from plot_py_success [OF assms] obtain t df x y where
    "files w ''loss.csv'' = Some t" "readable w ''loss.csv''"
    "parse_csv L None [''Epoch'', ''Loss''] t = Inr df"
    "map_of df ''Epoch'' = Some x" "map_of df ''Loss'' = Some y"
    "fig w' = Some
          \<lparr>figsize = Some (8, 5),
           lines = [\<lparr>xdata = x, ydata = y, label = Some ''Training Loss''\<rparr>],
           xlabel = ''Epoche'', ylabel = ''Loss (Cross-Entropy)'',
           title = ''Loss-Verlauf des Trainings'',
           legend = Some [''Training Loss''], grid = True\<rparr>"
    by blast
  then show ?thesis
    by (simp add: loader_eval)
qed

text \<open>The sample run: the series are the two columns of the three-row table.\<close>

theorem chart_series_are_table_columns_witness:
  "\<exists>w' f. plot_py sample_lib sample_world = (Inr (), w') \<and> fig w' = Some f \<and>
     map (\<lambda>l. (xdata l, ydata l)) (lines f) = [([1, 2, 3], [5 / 2, 21 / 10, 19 / 10])]"
proof -
  from sample_run_succeeds obtain w' where
    run: "plot_py sample_lib sample_world = (Inr (), w')" ..
  from chart_series_are_table_columns [OF run] obtain df w1 x y f where
    l: "loader sample_lib sample_world = (Inr df, w1)" and
    c: "map_of df ''Epoch'' = Some x" "map_of df ''Loss'' = Some y" and
    f: "fig w' = Some f" "map (\<lambda>l. (xdata l, ydata l)) (lines f) = [(x, y)]"
    by (elim exE conjE)
  from l have "df = [(''Epoch'', [1, 2, 3]), (''Loss'', [5 / 2, 21 / 10, 19 / 10])]"
    by (simp add: loader_eval sample_lib_def sample_world_def)
  with c have "x = [1, 2, 3]" "y = [5 / 2, 21 / 10, 19 / 10]"
    by simp_all
  with run f show ?thesis
    by simp
qed

text \<open>
  Claim C5. On a run that completes, the figure that is saved is the chart the
  renderer built from the two columns of the loaded table, and the working directory
  afterwards is the one before with \<^verbatim>\<open>my_plot.png\<close> bound to the PNG signature
  followed by the image data of exactly that chart: the same name on every run, the
  old content replaced (not appended to), no other name created. The file exists and
  is not empty, and the write is the last effect of the run and its only write.
\<close>

theorem writer_overwrites_my_plot_png:
  assumes "plot_py L w = (Inr (), w')"
  shows "\<exists>df w1 x y data.
     loader L w = (Inr df, w1) \<and>
     map_of df ''Epoch'' = Some x \<and> map_of df ''Loss'' = Some y \<and>
     fig w' = Some
          \<lparr>figsize = Some (8, 5),
           lines = [\<lparr>xdata = x, ydata = y, label = Some ''Training Loss''\<rparr>],
           xlabel = ''Epoche'', ylabel = ''Loss (Cross-Entropy)'',
           title = ''Loss-Verlauf des Trainings'',
           legend = Some [''Training Loss''], grid = True\<rparr> \<and>
     encode L (files w ''matplotlibrc'')
          \<lparr>figsize = Some (8, 5),
           lines = [\<lparr>xdata = x, ydata = y, label = Some ''Training Loss''\<rparr>],
           xlabel = ''Epoche'', ylabel = ''Loss (Cross-Entropy)'',
           title = ''Loss-Verlauf des Trainings'',
           legend = Some [''Training Loss''], grid = True\<rparr> = Inr data \<and>
     files w' = (files w)(''my_plot.png'' \<mapsto> png_signature @ data) \<and>
     png_signature @ data \<noteq> [] \<and>
     effects w' = effects w @
       (if files w ''matplotlibrc'' = None then [] else [FileRead ''matplotlibrc'']) @
       [FileRead ''loss.csv''] @
       (if interactive L (files w ''matplotlibrc'') then [WindowShown] else []) @
       [FileWrite ''my_plot.png'']"
proof -
  from plot_py_success [OF assms] obtain t df x y data where
    t: "files w ''loss.csv'' = Some t" "readable w ''loss.csv''"
       "parse_csv L None [''Epoch'', ''Loss''] t = Inr df" and
    c: "map_of df ''Epoch'' = Some x" "map_of df ''Loss'' = Some y" and
    f: "fig w' = Some
          \<lparr>figsize = Some (8, 5),
           lines = [\<lparr>xdata = x, ydata = y, label = Some ''Training Loss''\<rparr>],
           xlabel = ''Epoche'', ylabel = ''Loss (Cross-Entropy)'',
           title = ''Loss-Verlauf des Trainings'',
           legend = Some [''Training Loss''], grid = True\<rparr>" and
    e: "encode L (files w ''matplotlibrc'')
          \<lparr>figsize = Some (8, 5),
           lines = [\<lparr>xdata = x, ydata = y, label = Some ''Training Loss''\<rparr>],
           xlabel = ''Epoche'', ylabel = ''Loss (Cross-Entropy)'',
           title = ''Loss-Verlauf des Trainings'',
           legend = Some [''Training Loss''], grid = True\<rparr> = Inr data" and
    w: "files w' = (files w)(''my_plot.png'' \<mapsto> png_signature @ data)"
       "effects w' = effects w @
         (if files w ''matplotlibrc'' = None then [] else [FileRead ''matplotlibrc'']) @
         [FileRead ''loss.csv''] @
         (if interactive L (files w ''matplotlibrc'') then [WindowShown] else []) @
         [FileWrite ''my_plot.png'']"
    by (elim exE conjE)
  from t have l: "loader L w = (Inr df, w\<lparr>effects := effects w @ [FileRead ''loss.csv'']\<rparr>)"
    by (simp add: loader_eval)
  have n: "png_signature @ data \<noteq> []"
    by (simp add: png_signature_def)
  from l c f e w n show ?thesis
    by (intro exI conjI)
qed

text \<open>
  The sample run in a directory that already holds a \<^verbatim>\<open>my_plot.png\<close>: the old
  content is gone, the new one spells out the whole chart, and the directory holds
  the same two names.
\<close>

theorem writer_overwrites_my_plot_png_witness:
  "\<exists>w'. plot_py sample_lib
          (sample_world\<lparr>files := (files sample_world)(''my_plot.png'' \<mapsto> ''old image'')\<rparr>)
        = (Inr (), w') \<and>
     files w' ''my_plot.png'' = Some (png_signature @
       ''Loss-Verlauf des Trainings|Epoche|Loss (Cross-Entropy)|Training Loss|grid|xxxyyy'') \<and>
     dom (files w') = {''loss.csv'', ''my_plot.png''}"
proof -
  let ?w = "sample_world\<lparr>files := (files sample_world)(''my_plot.png'' \<mapsto> ''old image'')\<rparr>"
  have "fst (plot_py sample_lib ?w) = Inr ()"
    by (simp add: plot_py_eval then_py_def loader_eval renderer_eval writer_eval
        sample_lib_def sample_world_def)
  then obtain w' where run: "plot_py sample_lib ?w = (Inr (), w')"
    by (metis prod.collapse)
  from writer_overwrites_my_plot_png [OF run] obtain df w1 x y data where
    l: "loader sample_lib ?w = (Inr df, w1)" and
    c: "map_of df ''Epoch'' = Some x" "map_of df ''Loss'' = Some y" and
    e: "encode sample_lib (files ?w ''matplotlibrc'')
          \<lparr>figsize = Some (8, 5),
           lines = [\<lparr>xdata = x, ydata = y, label = Some ''Training Loss''\<rparr>],
           xlabel = ''Epoche'', ylabel = ''Loss (Cross-Entropy)'',
           title = ''Loss-Verlauf des Trainings'',
           legend = Some [''Training Loss''], grid = True\<rparr> = Inr data" and
    w: "files w' = (files ?w)(''my_plot.png'' \<mapsto> png_signature @ data)"
    by (elim exE conjE)
  from l have "df = [(''Epoch'', [1, 2, 3]), (''Loss'', [5 / 2, 21 / 10, 19 / 10])]"
    by (simp add: loader_eval sample_lib_def sample_world_def)
  with c have "x = [1, 2, 3]" "y = [5 / 2, 21 / 10, 19 / 10]"
    by simp_all
  with e have
    "data = ''Loss-Verlauf des Trainings|Epoche|Loss (Cross-Entropy)|Training Loss|grid|xxxyyy''"
    by (simp add: sample_lib_def)
  with run w show ?thesis
    by (auto simp: sample_world_def)
qed

text \<open>
  Claim C6. On a run that completes, whatever the table and the library, the figure
  is 8 by 5, its x-axis label is "Epoche", its y-axis label "Loss (Cross-Entropy)",
  its title "Loss-Verlauf des Trainings", its legend has the single entry
  "Training Loss", its grid is on, and its one line carries the label "Training Loss".
\<close>

theorem figure_decorations_fixed:
  assumes "plot_py L w = (Inr (), w')"
  shows "\<exists>f. fig w' = Some f \<and> figsize f = Some (8, 5) \<and>
     xlabel f = ''Epoche'' \<and> ylabel f = ''Loss (Cross-Entropy)'' \<and>
     title f = ''Loss-Verlauf des Trainings'' \<and>
     legend f = Some [''Training Loss''] \<and> grid f = True \<and>
     map label (lines f) = [Some ''Training Loss'']"
proof -
  from plot_py_success [OF assms] obtain x y where
    "fig w' = Some
          \<lparr>figsize = Some (8, 5),
           lines = [\<lparr>xdata = x, ydata = y, label = Some ''Training Loss''\<rparr>],
           xlabel = ''Epoche'', ylabel = ''Loss (Cross-Entropy)'',
           title = ''Loss-Verlauf des Trainings'',
           legend = Some [''Training Loss''], grid = True\<rparr>"
    by blast
  then show ?thesis
    by simp
qed

text \<open>The sample run completes and its figure carries the decorations.\<close>

theorem figure_decorations_fixed_witness:
  "\<exists>w' f. plot_py sample_lib sample_world = (Inr (), w') \<and> fig w' = Some f \<and>
     figsize f = Some (8, 5) \<and> xlabel f = ''Epoche'' \<and>
     ylabel f = ''Loss (Cross-Entropy)'' \<and> title f = ''Loss-Verlauf des Trainings'' \<and>
     legend f = Some [''Training Loss''] \<and> grid f = True"
proof -
  from sample_run_succeeds obtain w' where
    run: "plot_py sample_lib sample_world = (Inr (), w')" ..
  from figure_decorations_fixed [OF run] run show ?thesis
    by blast
qed

text \<open>
  Claim C7. When \<^verbatim>\<open>loss.csv\<close> is absent or unreadable, the run ends in an
  exception and writes nothing. In a working directory without a
  \<^verbatim>\<open>matplotlibrc\<close> the exception is the loader's and the world is left exactly
  as it was: no file written, no figure started, no effect logged. With a
  \<^verbatim>\<open>matplotlibrc\<close> the only difference is the import before the loader: either
  it fails on an unreadable configuration file, the world again unchanged, or it
  logs its read of that file and the loader's exception follows.
\<close>

theorem missing_input_is_fatal:
  assumes "files w ''loss.csv'' = None \<or> \<not> readable w ''loss.csv''"
  shows "(files w ''matplotlibrc'' = None \<longrightarrow>
      plot_py L w =
        (Inl (if files w ''loss.csv'' = None then FileNotFoundError ''loss.csv''
              else PermissionError ''loss.csv''), w)) \<and>
     (files w ''matplotlibrc'' \<noteq> None \<longrightarrow>
      plot_py L w =
        (if \<not> readable w ''matplotlibrc'' then (Inl (PermissionError ''matplotlibrc''), w)
         else (Inl (if files w ''loss.csv'' = None then FileNotFoundError ''loss.csv''
                    else PermissionError ''loss.csv''),
               w\<lparr>effects := effects w @ [FileRead ''matplotlibrc'']\<rparr>)))"
  using assms
  by (auto simp: plot_py_eval then_py_def loader_eval split: option.splits)

text \<open>
  The sample world without the file, with the file unreadable, and with a
  configuration file in place of the input.
\<close>

theorem missing_input_is_fatal_witness:
  "plot_py sample_lib (sample_world\<lparr>files := Map.empty\<rparr>) =
     (Inl (FileNotFoundError ''loss.csv''), sample_world\<lparr>files := Map.empty\<rparr>) \<and>
   plot_py sample_lib (sample_world\<lparr>readable := (\<lambda>_. False)\<rparr>) =
     (Inl (PermissionError ''loss.csv''), sample_world\<lparr>readable := (\<lambda>_. False)\<rparr>) \<and>
   plot_py sample_lib (sample_world\<lparr>files := [''matplotlibrc'' \<mapsto> ''lines.linewidth: 2'']\<rparr>) =
     (Inl (FileNotFoundError ''loss.csv''),
      sample_world\<lparr>files := [''matplotlibrc'' \<mapsto> ''lines.linewidth: 2''],
        effects := [FileRead ''matplotlibrc'']\<rparr>)"
  using missing_input_is_fatal [of "sample_world\<lparr>files := Map.empty\<rparr>" sample_lib]
    missing_input_is_fatal [of "sample_world\<lparr>readable := (\<lambda>_. False)\<rparr>" sample_lib]
    missing_input_is_fatal
      [of "sample_world\<lparr>files := [''matplotlibrc'' \<mapsto> ''lines.linewidth: 2'']\<rparr>" sample_lib]
  by (simp add: sample_world_def)




end
